theory Spec2Isabelle
  imports Main "HOL-Library.Word"
begin

section \<open>Data model (src/include/buffer/lru\_k\_replacer.h)\<close>

text \<open>
  Modelled from the spec: \<open>frame_id_t\<close> is declared in common/config.h, which is not among
  the sources. The spec's integer frame id is taken as a signed 32-bit integer, and
  \<open>size_t\<close> as an unsigned 64-bit integer whose arithmetic wraps around.
  \<open>static_cast<size_t>(frame_id)\<close> is the sign extension \<open>scast\<close>.
\<close>

type_synonym frame_id_t = "32 word"
type_synonym size_t = "64 word"

datatype AccessType = Unknown | Lookup | Scan | Index

text \<open>
  Class \<open>LRUKNode\<close>. The members \<open>history_\<close>, \<open>fid_\<close>, \<open>k_\<close> and \<open>is_evictable_\<close>
  lose their trailing underscore; \<open>k_\<close> becomes \<open>k_node\<close> since the replacer has a member
  of the same name. The history is a \<open>std::list\<close> with the oldest timestamp at the front.
\<close>

record LRUKNode =
  history :: "size_t list"
  fid :: frame_id_t
  k_node :: size_t
  is_evictable :: bool

text \<open>The default constructor \<open>LRUKNode()\<close> (line 38); \<open>is_evictable_\<close> starts false.\<close>

definition LRUKNode :: LRUKNode where
  "LRUKNode = \<lparr>history = [], fid = - 1, k_node = 0, is_evictable = False\<rparr>"

text \<open>\<open>std::list::size()\<close>, a \<open>size_t\<close>.\<close>

definition list_size :: "size_t list \<Rightarrow> size_t" where
  "list_size xs = of_nat (length xs)"

text \<open>\<open>LRUKNode::GetBackKTimeStamp\<close> (lines 44-49).\<close>

definition GetBackKTimeStamp :: "LRUKNode \<Rightarrow> size_t" where
  "GetBackKTimeStamp node =
     (if list_size (history node) = 0 then - 1 else hd (history node))"

text \<open>
  Class \<open>LRUKReplacer\<close>. \<open>node_store_\<close> is a \<open>std::unordered_map\<close>: a finite map from frame
  ids to nodes. The lists \<open>less_than_k\<close> and \<open>more_than_k\<close> are never used by
  lru\_k\_replacer.cpp and are left out, as is the mutex: every operation holds it from its
  first line to its return, so the operations are modelled as atomic state transformers.
\<close>

record LRUKReplacer =
  node_store :: "frame_id_t \<rightharpoonup> LRUKNode"
  current_timestamp :: size_t
  curr_size :: size_t
  replacer_size :: size_t
  k_replacer :: size_t

text \<open>
  The two exceptions the operations throw, and the outcome of a \<open>void\<close> operation. An
  operation returns its outcome together with the state the replacer is left in, also
  when it throws. \<open>Undefined_behaviour\<close> is the outcome of an operation that reaches a
  statement whose behaviour C++ does not define; the state is then the one reached when
  that statement is executed, and nothing is known of the program from there on.
\<close>

datatype cpp_exception = std_exception | std_out_of_range

datatype outcome = Returned | Thrown cpp_exception | Undefined_behaviour

section \<open>Operations (src/buffer/lru\_k\_replacer.cpp)\<close>

text \<open>The constructor (lines 18-21) and the member initialisers of the header.\<close>

definition LRUKReplacer :: "size_t \<Rightarrow> size_t \<Rightarrow> LRUKReplacer" where
  "LRUKReplacer num_frames k =
     \<lparr>node_store = Map.empty, current_timestamp = 0, curr_size = 0,
      replacer_size = num_frames, k_replacer = k\<rparr>"

text \<open>
  \<open>Evict\<close> (lines 33-79). The range-for loop visits the entries of \<open>node_store_\<close> in the
  iteration order of the \<open>std::unordered_map\<close>, which C++ leaves unspecified; the model
  takes that order as the parameter \<open>order\<close>, a list of the tracked frame ids. The
  parameter \<open>frame_id\<close> is the content of \<open>*frame_id\<close> when \<open>Evict\<close> is called, and the second
  component of the result is its content on return.

  The body of the loop ends in \<open>return success\<close> (line 74), inside the loop. So the body
  is run for the first evictable entry only, with \<open>is_inf\<close>, \<open>max_bkd\<close> and
  \<open>max_lessk_bkd\<close> still at their initial values; entries that are not evictable are
  skipped by \<open>continue\<close>. \<open>evit_node\<close> is a local copy that is never read again.
\<close>

definition Evict_body ::
  "frame_id_t \<Rightarrow> LRUKNode \<Rightarrow> frame_id_t \<Rightarrow> LRUKReplacer
     \<Rightarrow> bool \<times> frame_id_t \<times> LRUKReplacer" where
  "Evict_body it_first node frame_id s =
     (let is_inf = False;
          success = True;
          max_bkd = (0 :: size_t);
          max_lessk_bkd = (0 :: size_t);
          frame_id = (if history node = [] then it_first else frame_id);
          frame_id =
            (if list_size (history node) = k_replacer s \<and> \<not> is_inf then
               (let cur_bkd = current_timestamp s - GetBackKTimeStamp node
                in if cur_bkd > max_bkd then it_first else frame_id)
             else if list_size (history node) < k_replacer s then
               (let cur_less_bkd = current_timestamp s - GetBackKTimeStamp node
                in if cur_less_bkd > max_lessk_bkd then it_first else frame_id)
             else frame_id)
      in if success then
           (success, frame_id,
            s\<lparr>curr_size := curr_size s - 1,
              node_store := (node_store s)(frame_id := None)\<rparr>)
         else (success, frame_id, s))"

fun Evict_loop ::
  "frame_id_t list \<Rightarrow> frame_id_t \<Rightarrow> LRUKReplacer \<Rightarrow> bool \<times> frame_id_t \<times> LRUKReplacer" where
  "Evict_loop [] frame_id s = (False, frame_id, s)"
| "Evict_loop (it_first # rest) frame_id s =
     (case node_store s it_first of
        None \<Rightarrow> Evict_loop rest frame_id s
      | Some node \<Rightarrow>
          if \<not> is_evictable node then Evict_loop rest frame_id s
          else Evict_body it_first node frame_id s)"

definition Evict ::
  "frame_id_t list \<Rightarrow> frame_id_t \<Rightarrow> LRUKReplacer \<Rightarrow> bool \<times> frame_id_t \<times> LRUKReplacer" where
  "Evict order frame_id s =
     (if curr_size s \<le> 0 then (False, frame_id, s) else Evict_loop order frame_id s)"

text \<open>
  \<open>RecordAccess\<close> (lines 90-114). In the \<open>else\<close> branch \<open>auto node = node_store_[frame_id]\<close>
  (line 105) copies the stored node; the timestamp is pushed onto the copy and the copy
  is dropped when the function returns, so the model computes \<open>node\<close> and returns the
  store as it was.
\<close>

definition RecordAccess ::
  "frame_id_t \<Rightarrow> AccessType \<Rightarrow> LRUKReplacer \<Rightarrow> outcome \<times> LRUKReplacer" where
  "RecordAccess frame_id access_type s =
     (if replacer_size s > scast frame_id then (Thrown std_exception, s)
      else
        let s = s\<lparr>current_timestamp := current_timestamp s + 1\<rparr>
        in case node_store s frame_id of
             None \<Rightarrow>
               (let new_node = LRUKNode;
                    new_node =
                      (if access_type \<noteq> Scan
                       then new_node\<lparr>history := history new_node @ [current_timestamp s]\<rparr>
                       else new_node)
                in (Returned, s\<lparr>node_store := (node_store s)(frame_id \<mapsto> new_node)\<rparr>))
           | Some stored \<Rightarrow>
               (let node = stored;
                    node =
                      (if access_type \<noteq> Scan then
                         (let node = node\<lparr>history := history node @ [current_timestamp s]\<rparr>
                          in if list_size (history node) > k_replacer s
                             then node\<lparr>history := tl (history node)\<rparr> else node)
                       else node)
                in (Returned, s)))"

text \<open>
  \<open>SetEvictable\<close> (lines 116-136). When the frame is not tracked, lines 123-124 build a
  default node for it, and \<open>node_store_[frame_id]\<close> (line 126) default-constructs the
  entry if it is still missing: either way the frame is tracked with \<open>LRUKNode()\<close> when
  line 128 is reached, and the \<open>None\<close> case of the second lookup below is never taken.
  \<open>node\<close> is a reference into the store, so line 134 writes the stored node.
\<close>

definition SetEvictable ::
  "frame_id_t \<Rightarrow> bool \<Rightarrow> LRUKReplacer \<Rightarrow> outcome \<times> LRUKReplacer" where
  "SetEvictable frame_id set_evictable s =
     (if replacer_size s < scast frame_id then (Thrown std_out_of_range, s)
      else
        let s = (case node_store s frame_id of
                   None \<Rightarrow> s\<lparr>node_store := (node_store s)(frame_id \<mapsto> LRUKNode)\<rparr>
                 | Some _ \<Rightarrow> s)
        in case node_store s frame_id of
             None \<Rightarrow> (Returned, s)
           | Some node \<Rightarrow>
               if is_evictable node \<noteq> set_evictable then
                 (let s = (if set_evictable then s\<lparr>curr_size := curr_size s + 1\<rparr>
                           else s\<lparr>curr_size := curr_size s - 1\<rparr>)
                  in (Returned,
                      s\<lparr>node_store :=
                          (node_store s)(frame_id \<mapsto> node\<lparr>is_evictable := set_evictable\<rparr>)\<rparr>))
               else (Returned, s))"

text \<open>
  \<open>Remove\<close> (lines 138-154). \<open>node\<close> is a reference to the stored entry (line 146). For
  a tracked evictable frame line 150 erases that entry, which destroys the node, and
  line 151 then calls \<open>history_.clear()\<close> through the dangling reference: the behaviour
  is undefined (with a history that is not empty the list nodes are freed a second
  time). The model stops there, with the entry erased and line 152, the decrement of
  \<open>curr_size_\<close>, not reached.
\<close>

definition Remove :: "frame_id_t \<Rightarrow> LRUKReplacer \<Rightarrow> outcome \<times> LRUKReplacer" where
  "Remove frame_id s =
     (if replacer_size s < scast frame_id then (Thrown std_out_of_range, s)
      else case node_store s frame_id of
             None \<Rightarrow> (Returned, s)
           | Some node \<Rightarrow>
               if \<not> is_evictable node then (Thrown std_exception, s)
               else (Undefined_behaviour,
                     s\<lparr>node_store := (node_store s)(frame_id := None)\<rparr>))"

text \<open>\<open>Size\<close> (line 156).\<close>

definition Size :: "LRUKReplacer \<Rightarrow> size_t" where
  "Size s = curr_size s"

text \<open>
  An iteration order of the store: every tracked frame id, once. \<open>Evict\<close> is only ever
  run on such an order.
\<close>

definition iteration_order :: "frame_id_t list \<Rightarrow> LRUKReplacer \<Rightarrow> bool" where
  "iteration_order order s \<longleftrightarrow> distinct order \<and> set order = dom (node_store s)"

text \<open>
  The tracked frames whose evictable flag is set, in the order of iteration: the
  candidates of \<open>Evict\<close>, and the records that \<open>Size()\<close> is meant to count.
\<close>

definition evictable_frames :: "frame_id_t list \<Rightarrow> LRUKReplacer \<Rightarrow> frame_id_t list" where
  "evictable_frames order s =
     filter (\<lambda>f. case node_store s f of None \<Rightarrow> False | Some node \<Rightarrow> is_evictable node) order"

text \<open>
  A caller that performs a sequence of the \<open>void\<close> operations and does not catch
  exceptions: the first operation that does not return ends the sequence.
\<close>

fun calls ::
  "(LRUKReplacer \<Rightarrow> outcome \<times> LRUKReplacer) list \<Rightarrow> LRUKReplacer \<Rightarrow> outcome \<times> LRUKReplacer" where
  "calls [] s = (Returned, s)"
| "calls (c # cs) s =
     (case c s of
        (Returned, s') \<Rightarrow> calls cs s'
      | (Thrown e, s') \<Rightarrow> (Thrown e, s')
      | (Undefined_behaviour, s') \<Rightarrow> (Undefined_behaviour, s'))"

section \<open>Evaluation\<close>

lemmas replacer_defs =
  RecordAccess_def SetEvictable_def Remove_def Evict_def Evict_body_def Size_def
  LRUKReplacer_def LRUKNode_def GetBackKTimeStamp_def list_size_def Let_def

section \<open>RecordAccess: the range check\<close>

lemma RecordAccess_throws_iff:
  "fst (RecordAccess frame_id access_type s) = Thrown std_exception
     \<longleftrightarrow> scast frame_id < replacer_size s"
  by (simp add: RecordAccess_def Let_def split: option.splits)

text \<open>
  C2. \<open>RecordAccess\<close> is stated to fail exactly when \<open>frame_id \<ge> num_frames\<close>, and for a
  frame id in \<open>[0, num_frames)\<close> to increment the clock and update the frame's record. On
  the code, with \<open>num_frames = 3\<close> and \<open>k = 2\<close>, \<open>RecordAccess(0)\<close>, \<open>RecordAccess(1)\<close> and
  \<open>RecordAccess(2)\<close> throw \<open>std::exception\<close> with the clock still at 0 and nothing
  recorded, while \<open>RecordAccess(3)\<close>, \<open>RecordAccess(7)\<close> and \<open>RecordAccess(-1)\<close> return with
  the access recorded: line 92 throws when \<open>replacer_size_ > frame_id\<close>, the inverse of
  the header comment (invalid when larger than \<open>replacer_size_\<close>) and of the checks of
  \<open>SetEvictable\<close> and \<open>Remove\<close> (\<open>replacer_size_ < frame_id\<close>).
\<close>

theorem RecordAccess_range_check_inverted:
  "RecordAccess 0 Unknown (LRUKReplacer 3 2) = (Thrown std_exception, LRUKReplacer 3 2) \<and>
   RecordAccess 1 Unknown (LRUKReplacer 3 2) = (Thrown std_exception, LRUKReplacer 3 2) \<and>
   RecordAccess 2 Unknown (LRUKReplacer 3 2) = (Thrown std_exception, LRUKReplacer 3 2) \<and>
   current_timestamp (LRUKReplacer 3 2) = 0 \<and>
   RecordAccess 3 Unknown (LRUKReplacer 3 2) =
     (Returned,
      \<lparr>node_store = [3 \<mapsto> \<lparr>history = [1], fid = - 1, k_node = 0, is_evictable = False\<rparr>],
       current_timestamp = 1, curr_size = 0, replacer_size = 3, k_replacer = 2\<rparr>) \<and>
   RecordAccess 7 Unknown (LRUKReplacer 3 2) =
     (Returned,
      \<lparr>node_store = [7 \<mapsto> \<lparr>history = [1], fid = - 1, k_node = 0, is_evictable = False\<rparr>],
       current_timestamp = 1, curr_size = 0, replacer_size = 3, k_replacer = 2\<rparr>) \<and>
   RecordAccess (- 1) Unknown (LRUKReplacer 3 2) =
     (Returned,
      \<lparr>node_store = [- 1 \<mapsto> \<lparr>history = [1], fid = - 1, k_node = 0, is_evictable = False\<rparr>],
       current_timestamp = 1, curr_size = 0, replacer_size = 3, k_replacer = 2\<rparr>)"
  by (simp add: replacer_defs)

section \<open>RecordAccess with a scan\<close>

text \<open>
  C7, as stated, fails: the first access to frame 3 of a replacer with \<open>num_frames = 3\<close>
  and \<open>k = 2\<close> leaves the history \<open>[]\<close> when it is a \<open>Scan\<close> and \<open>[1]\<close> when it is a
  \<open>Lookup\<close>. Lines 100 and 106 guard every push with \<open>access_type != AccessType::Scan\<close>,
  and the replacer has no option that switches the guard off.
\<close>

theorem RecordAccess_Scan_counterexample:
  "RecordAccess 3 Scan (LRUKReplacer 3 2) =
     (Returned,
      \<lparr>node_store = [3 \<mapsto> \<lparr>history = [], fid = - 1, k_node = 0, is_evictable = False\<rparr>],
       current_timestamp = 1, curr_size = 0, replacer_size = 3, k_replacer = 2\<rparr>) \<and>
   RecordAccess 3 Lookup (LRUKReplacer 3 2) =
     (Returned,
      \<lparr>node_store = [3 \<mapsto> \<lparr>history = [1], fid = - 1, k_node = 0, is_evictable = False\<rparr>],
       current_timestamp = 1, curr_size = 0, replacer_size = 3, k_replacer = 2\<rparr>) \<and>
   map_option history (node_store (snd (RecordAccess 3 Scan (LRUKReplacer 3 2))) 3) \<noteq>
   map_option history (node_store (snd (RecordAccess 3 Lookup (LRUKReplacer 3 2))) 3)"
  by (simp add: replacer_defs)

text \<open>
  C7, amended. \<open>RecordAccess\<close> with a \<open>Scan\<close> access type never records the access in a
  history: whenever the call does not fail, it increments the logical clock by one,
  leaves every tracked record exactly as it was, and the record it creates for an
  untracked frame has an empty history and is not evictable.
\<close>

theorem RecordAccess_Scan_not_recorded:
  assumes "RecordAccess frame_id Scan s = (Returned, s')"
  shows "current_timestamp s' = current_timestamp s + 1 \<and>
         (\<forall>g n. node_store s g = Some n \<longrightarrow> node_store s' g = Some n) \<and>
         (\<forall>g. g \<noteq> frame_id \<longrightarrow> node_store s' g = node_store s g) \<and>
         (node_store s frame_id = None \<longrightarrow>
            (\<exists>n'. node_store s' frame_id = Some n' \<and> history n' = [] \<and> \<not> is_evictable n'))"
  using assms
  by (auto simp: RecordAccess_def Let_def LRUKNode_def split: option.splits if_splits)

theorem RecordAccess_Scan_not_recorded_witness:
  "RecordAccess 3 Scan (LRUKReplacer 3 2) =
     (Returned,
      \<lparr>node_store = [3 \<mapsto> \<lparr>history = [], fid = - 1, k_node = 0, is_evictable = False\<rparr>],
       current_timestamp = 1, curr_size = 0, replacer_size = 3, k_replacer = 2\<rparr>) \<and>
   node_store (LRUKReplacer 3 2) 3 = None \<and>
   (\<exists>n'. node_store
            \<lparr>node_store = [3 \<mapsto> \<lparr>history = [], fid = - 1, k_node = 0, is_evictable = False\<rparr>],
             current_timestamp = 1, curr_size = 0, replacer_size = 3, k_replacer = 2\<rparr> 3 = Some n' \<and>
          history n' = [] \<and> \<not> is_evictable n')"
proof -
  have run: "RecordAccess 3 Scan (LRUKReplacer 3 2) =
     (Returned,
      \<lparr>node_store = [3 \<mapsto> \<lparr>history = [], fid = - 1, k_node = 0, is_evictable = False\<rparr>],
       current_timestamp = 1, curr_size = 0, replacer_size = 3, k_replacer = 2\<rparr>)"
    by (simp add: replacer_defs)
  have untracked: "node_store (LRUKReplacer 3 2) 3 = None"
    by (simp add: LRUKReplacer_def)
  show ?thesis
    using RecordAccess_Scan_not_recorded [OF run] run untracked by blast
qed

section \<open>RecordAccess on a tracked frame\<close>

lemma RecordAccess_tracked_store:
  assumes "node_store s frame_id = Some node"
  shows "node_store (snd (RecordAccess frame_id access_type s)) = node_store s"
  using assms by (simp add: RecordAccess_def Let_def)

text \<open>
  C3. A non-scan \<open>RecordAccess\<close> on a tracked frame is stated to append the new timestamp
  to the back of the frame's stored history. On the code, two accesses to frame 3 of a
  replacer with \<open>num_frames = 3\<close> and \<open>k = 2\<close> both return, the clock reaches 2, and the stored
  history of frame 3 is still \<open>[1]\<close>, not \<open>[1, 2]\<close>: line 105 copies the node
  (\<open>auto node\<close>, where \<open>SetEvictable\<close> and \<open>Remove\<close> take \<open>auto& node\<close>) and the
  timestamp is pushed onto the copy.
\<close>

theorem RecordAccess_tracked_history_lost:
  "calls [RecordAccess 3 Unknown] (LRUKReplacer 3 2) =
     (Returned,
      \<lparr>node_store = [3 \<mapsto> \<lparr>history = [1], fid = - 1, k_node = 0, is_evictable = False\<rparr>],
       current_timestamp = 1, curr_size = 0, replacer_size = 3, k_replacer = 2\<rparr>) \<and>
   calls [RecordAccess 3 Unknown, RecordAccess 3 Unknown] (LRUKReplacer 3 2) =
     (Returned,
      \<lparr>node_store = [3 \<mapsto> \<lparr>history = [1], fid = - 1, k_node = 0, is_evictable = False\<rparr>],
       current_timestamp = 2, curr_size = 0, replacer_size = 3, k_replacer = 2\<rparr>)"
  by (simp add: replacer_defs)

section \<open>SetEvictable\<close>

lemma SetEvictable_store:
  "node_store (snd (SetEvictable frame_id set_evictable s)) g =
     (if replacer_size s < scast frame_id \<or> g \<noteq> frame_id then node_store s g
      else case node_store s frame_id of
             None \<Rightarrow> Some (LRUKNode\<lparr>is_evictable := set_evictable\<rparr>)
           | Some node \<Rightarrow> Some (node\<lparr>is_evictable := set_evictable\<rparr>))"
  by (auto simp: SetEvictable_def Let_def LRUKNode_def split: option.splits)

text \<open>
  C10. \<open>SetEvictable\<close> never modifies an access history: whatever the frame id and the
  flag, and whether the call returns or throws, every frame tracked before the call is
  tracked after it with the same history, and a frame that is tracked only after the
  call is the frame of the call, with an empty history.
\<close>

theorem SetEvictable_keeps_histories:
  assumes "SetEvictable frame_id set_evictable s = (r, s')"
  shows "(\<forall>g n. node_store s g = Some n \<longrightarrow>
            (\<exists>n'. node_store s' g = Some n' \<and> history n' = history n)) \<and>
         (\<forall>g n'. node_store s g = None \<longrightarrow> node_store s' g = Some n' \<longrightarrow>
            g = frame_id \<and> history n' = [])"
proof -
  have s': "s' = snd (SetEvictable frame_id set_evictable s)"
    using assms by simp
  show ?thesis
    unfolding s' SetEvictable_store
    by (auto simp: LRUKNode_def split: option.splits)
qed

theorem SetEvictable_keeps_histories_witness:
  "SetEvictable 3 True (snd (RecordAccess 3 Unknown (LRUKReplacer 3 2))) =
     (Returned,
      \<lparr>node_store =
         [3 \<mapsto> \<lparr>history = [1], fid = - 1, k_node = 0, is_evictable = True\<rparr>],
       current_timestamp = 1, curr_size = 1, replacer_size = 3, k_replacer = 2\<rparr>) \<and>
   node_store (snd (RecordAccess 3 Unknown (LRUKReplacer 3 2))) 3 =
     Some \<lparr>history = [1], fid = - 1, k_node = 0, is_evictable = False\<rparr> \<and>
   (\<exists>n'. node_store (snd (SetEvictable 3 True (snd (RecordAccess 3 Unknown (LRUKReplacer 3 2))))) 3
            = Some n' \<and> history n' = [1])"
proof -
  have run: "SetEvictable 3 True (snd (RecordAccess 3 Unknown (LRUKReplacer 3 2))) =
     (Returned,
      \<lparr>node_store =
         [3 \<mapsto> \<lparr>history = [1], fid = - 1, k_node = 0, is_evictable = True\<rparr>],
       current_timestamp = 1, curr_size = 1, replacer_size = 3, k_replacer = 2\<rparr>)"
    by (simp add: SetEvictable_def RecordAccess_def LRUKReplacer_def LRUKNode_def Let_def)
  have before: "node_store (snd (RecordAccess 3 Unknown (LRUKReplacer 3 2))) 3 =
     Some \<lparr>history = [1], fid = - 1, k_node = 0, is_evictable = False\<rparr>"
    by (simp add: RecordAccess_def LRUKReplacer_def LRUKNode_def Let_def)
  show ?thesis
    using SetEvictable_keeps_histories [OF run] run before by simp
qed

text \<open>
  C9. \<open>SetEvictable(frame_id, false)\<close> on an in-range frame with no tracked record is
  stated to be a no-op. On the code, \<open>SetEvictable(1, false)\<close> on a fresh replacer with
  \<open>num_frames = 3\<close> returns with frame 1 tracked by a default node: the store has changed,
  \<open>Size()\<close> has not, and a later \<open>Remove(1)\<close> throws where it would have returned.
\<close>

theorem SetEvictable_false_creates_record:
  "node_store (LRUKReplacer 3 2) 1 = None \<and>
   SetEvictable 1 False (LRUKReplacer 3 2) =
     (Returned,
      \<lparr>node_store = [1 \<mapsto> \<lparr>history = [], fid = - 1, k_node = 0, is_evictable = False\<rparr>],
       current_timestamp = 0, curr_size = 0, replacer_size = 3, k_replacer = 2\<rparr>) \<and>
   snd (SetEvictable 1 False (LRUKReplacer 3 2)) \<noteq> LRUKReplacer 3 2 \<and>
   Size (snd (SetEvictable 1 False (LRUKReplacer 3 2))) = Size (LRUKReplacer 3 2) \<and>
   fst (Remove 1 (LRUKReplacer 3 2)) = Returned \<and>
   fst (Remove 1 (snd (SetEvictable 1 False (LRUKReplacer 3 2)))) = Thrown std_exception"
proof -
  have run: "SetEvictable 1 False (LRUKReplacer 3 2) =
     (Returned,
      \<lparr>node_store = [1 \<mapsto> \<lparr>history = [], fid = - 1, k_node = 0, is_evictable = False\<rparr>],
       current_timestamp = 0, curr_size = 0, replacer_size = 3, k_replacer = 2\<rparr>)"
    by (simp add: SetEvictable_def LRUKReplacer_def LRUKNode_def Let_def)
  have differs: "snd (SetEvictable 1 False (LRUKReplacer 3 2)) \<noteq> LRUKReplacer 3 2"
  proof
    assume "snd (SetEvictable 1 False (LRUKReplacer 3 2)) = LRUKReplacer 3 2"
    then have "node_store (snd (SetEvictable 1 False (LRUKReplacer 3 2))) 1
                 = node_store (LRUKReplacer 3 2) 1"
      by simp
    then show False
      unfolding run by (simp add: LRUKReplacer_def)
  qed
  show ?thesis
    unfolding run using differs [unfolded run]
    by (simp add: LRUKReplacer_def Remove_def Size_def)
qed

section \<open>Remove\<close>

text \<open>
  The paths of \<open>Remove\<close> that end before line 150 leave the replacer as it was: the range
  check, the untracked frame, and the tracked frame that is not evictable.
\<close>

lemma Remove_out_of_range:
  assumes "replacer_size s < scast frame_id"
  shows "Remove frame_id s = (Thrown std_out_of_range, s)"
  using assms by (simp add: Remove_def)

lemma Remove_untracked:
  assumes "\<not> replacer_size s < scast frame_id" and "node_store s frame_id = None"
  shows "Remove frame_id s = (Returned, s)"
  using assms by (simp add: Remove_def)

lemma Remove_not_evictable:
  assumes "\<not> replacer_size s < scast frame_id" and "node_store s frame_id = Some node"
    and "\<not> is_evictable node"
  shows "Remove frame_id s = (Thrown std_exception, s)"
  using assms by (simp add: Remove_def)

text \<open>
  C8. \<open>Remove\<close> on a tracked evictable frame is stated to erase the record and to
  decrease \<open>Size()\<close> by exactly 1. On the code, with \<open>num_frames = 3\<close> and \<open>k = 2\<close>, after
  \<open>RecordAccess(3)\<close> and \<open>SetEvictable(3, true)\<close> frame 3 is tracked and evictable with
  history \<open>[1]\<close>, and \<open>Remove(3)\<close> does not return: line 150 erases the entry and line 151
  clears its history through the reference taken on line 146, which dangles by then.
  \<open>Size()\<close> is still 1 when that happens.
\<close>

theorem Remove_evictable_use_after_erase:
  "calls [RecordAccess 3 Unknown, SetEvictable 3 True] (LRUKReplacer 3 2) =
     (Returned,
      \<lparr>node_store = [3 \<mapsto> \<lparr>history = [1], fid = - 1, k_node = 0, is_evictable = True\<rparr>],
       current_timestamp = 1, curr_size = 1, replacer_size = 3, k_replacer = 2\<rparr>) \<and>
   Remove 3
      \<lparr>node_store = [3 \<mapsto> \<lparr>history = [1], fid = - 1, k_node = 0, is_evictable = True\<rparr>],
       current_timestamp = 1, curr_size = 1, replacer_size = 3, k_replacer = 2\<rparr> =
     (Undefined_behaviour,
      \<lparr>node_store = Map.empty,
       current_timestamp = 1, curr_size = 1, replacer_size = 3, k_replacer = 2\<rparr>) \<and>
   calls [RecordAccess 3 Unknown, SetEvictable 3 True, Remove 3] (LRUKReplacer 3 2) =
     (Undefined_behaviour,
      \<lparr>node_store = Map.empty,
       current_timestamp = 1, curr_size = 1, replacer_size = 3, k_replacer = 2\<rparr>)"
  by (simp add: replacer_defs)

section \<open>Evict\<close>

text \<open>
  What does hold of a successful \<open>Evict\<close>, for any order of iteration: the counter was
  positive and is decremented, and the frame id handed back is not tracked afterwards.
\<close>

lemma Evict_loop_success:
  assumes "Evict_loop order frame_id s = (True, victim, s')"
  shows "curr_size s' = curr_size s - 1 \<and> node_store s' victim = None"
  using assms
  by (induction order) (auto simp: Evict_body_def Let_def split: option.splits if_splits)

lemma Evict_success:
  assumes "Evict order frame_id s = (True, victim, s')"
  shows "curr_size s \<noteq> 0 \<and> curr_size s' = curr_size s - 1 \<and> node_store s' victim = None"
  using assms Evict_loop_success [of order frame_id s victim s']
  by (auto simp: Evict_def split: if_splits)

text \<open>
  C4. \<open>Evict\<close> is stated to return only frames that are tracked and evictable. On the
  code, with \<open>num_frames = 3\<close> and \<open>k = 2\<close>, after \<open>RecordAccess(4)\<close>, \<open>RecordAccess(3)\<close> and
  \<open>SetEvictable(3, true)\<close> frame 4 is tracked and not evictable and frame 3 is the only
  evictable frame, last accessed at the current time 2. \<open>Evict(&f)\<close> with \<open>f = 4\<close> on
  entry returns true with \<open>f = 4\<close> and erases the record of frame 4, in either order of
  iteration: the distance \<open>2 - 2 = 0\<close> of frame 3 is not greater than the initial
  \<open>max_lessk_bkd = 0\<close> (line 63), so \<open>*frame_id\<close> is never assigned, and lines 70-72
  erase whatever it held.
\<close>

theorem Evict_returns_non_evictable_frame:
  "calls [RecordAccess 4 Unknown, RecordAccess 3 Unknown, SetEvictable 3 True]
         (LRUKReplacer 3 2) =
     (Returned,
      \<lparr>node_store =
         [4 \<mapsto> \<lparr>history = [1], fid = - 1, k_node = 0, is_evictable = False\<rparr>,
          3 \<mapsto> \<lparr>history = [2], fid = - 1, k_node = 0, is_evictable = True\<rparr>],
       current_timestamp = 2, curr_size = 1, replacer_size = 3, k_replacer = 2\<rparr>) \<and>
   iteration_order [3, 4]
      \<lparr>node_store =
         [4 \<mapsto> \<lparr>history = [1], fid = - 1, k_node = 0, is_evictable = False\<rparr>,
          3 \<mapsto> \<lparr>history = [2], fid = - 1, k_node = 0, is_evictable = True\<rparr>],
       current_timestamp = 2, curr_size = 1, replacer_size = 3, k_replacer = 2\<rparr> \<and>
   iteration_order [4, 3]
      \<lparr>node_store =
         [4 \<mapsto> \<lparr>history = [1], fid = - 1, k_node = 0, is_evictable = False\<rparr>,
          3 \<mapsto> \<lparr>history = [2], fid = - 1, k_node = 0, is_evictable = True\<rparr>],
       current_timestamp = 2, curr_size = 1, replacer_size = 3, k_replacer = 2\<rparr> \<and>
   evictable_frames [3, 4]
      \<lparr>node_store =
         [4 \<mapsto> \<lparr>history = [1], fid = - 1, k_node = 0, is_evictable = False\<rparr>,
          3 \<mapsto> \<lparr>history = [2], fid = - 1, k_node = 0, is_evictable = True\<rparr>],
       current_timestamp = 2, curr_size = 1, replacer_size = 3, k_replacer = 2\<rparr> = [3] \<and>
   Evict [3, 4] 4
      \<lparr>node_store =
         [4 \<mapsto> \<lparr>history = [1], fid = - 1, k_node = 0, is_evictable = False\<rparr>,
          3 \<mapsto> \<lparr>history = [2], fid = - 1, k_node = 0, is_evictable = True\<rparr>],
       current_timestamp = 2, curr_size = 1, replacer_size = 3, k_replacer = 2\<rparr> =
     (True, 4,
      \<lparr>node_store = [3 \<mapsto> \<lparr>history = [2], fid = - 1, k_node = 0, is_evictable = True\<rparr>],
       current_timestamp = 2, curr_size = 0, replacer_size = 3, k_replacer = 2\<rparr>) \<and>
   Evict [4, 3] 4
      \<lparr>node_store =
         [4 \<mapsto> \<lparr>history = [1], fid = - 1, k_node = 0, is_evictable = False\<rparr>,
          3 \<mapsto> \<lparr>history = [2], fid = - 1, k_node = 0, is_evictable = True\<rparr>],
       current_timestamp = 2, curr_size = 1, replacer_size = 3, k_replacer = 2\<rparr> =
     (True, 4,
      \<lparr>node_store = [3 \<mapsto> \<lparr>history = [2], fid = - 1, k_node = 0, is_evictable = True\<rparr>],
       current_timestamp = 2, curr_size = 0, replacer_size = 3, k_replacer = 2\<rparr>)"
  by (auto simp: replacer_defs fun_upd_twist iteration_order_def evictable_frames_def)

text \<open>
  C5. \<open>Size()\<close> is stated to equal the number of tracked records whose evictable flag is
  true, after every operation. On the code, with \<open>num_frames = 3\<close> and \<open>k = 2\<close>, after
  \<open>RecordAccess(3)\<close> and \<open>SetEvictable(3, true)\<close> the store holds frame 3 only, evictable,
  and \<open>Size()\<close> is 1. \<open>Evict(&f)\<close> with \<open>f = 0\<close> on entry returns true with \<open>f = 0\<close>:
  \<open>Size()\<close> is now 0 while frame 3 is still tracked and evictable, so one evictable
  record is counted as none. From there a second \<open>Evict\<close> returns false although an
  evictable frame exists.
\<close>

theorem Evict_breaks_size_invariant:
  "calls [RecordAccess 3 Unknown, SetEvictable 3 True] (LRUKReplacer 3 2) =
     (Returned,
      \<lparr>node_store = [3 \<mapsto> \<lparr>history = [1], fid = - 1, k_node = 0, is_evictable = True\<rparr>],
       current_timestamp = 1, curr_size = 1, replacer_size = 3, k_replacer = 2\<rparr>) \<and>
   iteration_order [3]
      \<lparr>node_store = [3 \<mapsto> \<lparr>history = [1], fid = - 1, k_node = 0, is_evictable = True\<rparr>],
       current_timestamp = 1, curr_size = 1, replacer_size = 3, k_replacer = 2\<rparr> \<and>
   Evict [3] 0
      \<lparr>node_store = [3 \<mapsto> \<lparr>history = [1], fid = - 1, k_node = 0, is_evictable = True\<rparr>],
       current_timestamp = 1, curr_size = 1, replacer_size = 3, k_replacer = 2\<rparr> =
     (True, 0,
      \<lparr>node_store = [3 \<mapsto> \<lparr>history = [1], fid = - 1, k_node = 0, is_evictable = True\<rparr>],
       current_timestamp = 1, curr_size = 0, replacer_size = 3, k_replacer = 2\<rparr>) \<and>
   Size
      \<lparr>node_store = [3 \<mapsto> \<lparr>history = [1], fid = - 1, k_node = 0, is_evictable = True\<rparr>],
       current_timestamp = 1, curr_size = 0, replacer_size = 3, k_replacer = 2\<rparr> = 0 \<and>
   evictable_frames [3]
      \<lparr>node_store = [3 \<mapsto> \<lparr>history = [1], fid = - 1, k_node = 0, is_evictable = True\<rparr>],
       current_timestamp = 1, curr_size = 0, replacer_size = 3, k_replacer = 2\<rparr> = [3] \<and>
   fst (Evict [3] 0
      \<lparr>node_store = [3 \<mapsto> \<lparr>history = [1], fid = - 1, k_node = 0, is_evictable = True\<rparr>],
       current_timestamp = 1, curr_size = 0, replacer_size = 3, k_replacer = 2\<rparr>) = False"
  by (simp add: replacer_defs iteration_order_def evictable_frames_def)

text \<open>
  C1. \<open>Evict\<close> is stated to return the evictable frame with the largest backward
  k-distance, a frame with fewer than \<open>k\<close> accesses winning over every frame with \<open>k\<close>.
  On the code the loop body returns at line 74, so the first evictable entry in the
  order of iteration decides alone.

  With \<open>num_frames = 3\<close> and \<open>k = 2\<close>, after \<open>RecordAccess(3)\<close> and \<open>SetEvictable(3, true)\<close>
  frame 3 is the only evictable frame, and \<open>Evict(&f)\<close> with \<open>f = 7\<close> on entry returns true
  with \<open>f = 7\<close>, not 3.

  With \<open>num_frames = 3\<close> and \<open>k = 1\<close>, after two accesses to frame 3, \<open>SetEvictable(3, true)\<close>
  and \<open>SetEvictable(0, true)\<close>, frame 0 has no access at all (distance +infinity) and
  frame 3 has a full history. \<open>Evict\<close> returns frame 3 when the map iterates frame 3
  first and frame 0 when it iterates frame 0 first.
\<close>

theorem Evict_first_evictable_wins:
  "calls [RecordAccess 3 Unknown, SetEvictable 3 True] (LRUKReplacer 3 2) =
     (Returned,
      \<lparr>node_store = [3 \<mapsto> \<lparr>history = [1], fid = - 1, k_node = 0, is_evictable = True\<rparr>],
       current_timestamp = 1, curr_size = 1, replacer_size = 3, k_replacer = 2\<rparr>) \<and>
   iteration_order [3]
      \<lparr>node_store = [3 \<mapsto> \<lparr>history = [1], fid = - 1, k_node = 0, is_evictable = True\<rparr>],
       current_timestamp = 1, curr_size = 1, replacer_size = 3, k_replacer = 2\<rparr> \<and>
   evictable_frames [3]
      \<lparr>node_store = [3 \<mapsto> \<lparr>history = [1], fid = - 1, k_node = 0, is_evictable = True\<rparr>],
       current_timestamp = 1, curr_size = 1, replacer_size = 3, k_replacer = 2\<rparr> = [3] \<and>
   Evict [3] 7
      \<lparr>node_store = [3 \<mapsto> \<lparr>history = [1], fid = - 1, k_node = 0, is_evictable = True\<rparr>],
       current_timestamp = 1, curr_size = 1, replacer_size = 3, k_replacer = 2\<rparr> =
     (True, 7,
      \<lparr>node_store = [3 \<mapsto> \<lparr>history = [1], fid = - 1, k_node = 0, is_evictable = True\<rparr>],
       current_timestamp = 1, curr_size = 0, replacer_size = 3, k_replacer = 2\<rparr>) \<and>
   calls [RecordAccess 3 Unknown, RecordAccess 3 Unknown, SetEvictable 3 True,
          SetEvictable 0 True] (LRUKReplacer 3 1) =
     (Returned,
      \<lparr>node_store =
         [3 \<mapsto> \<lparr>history = [1], fid = - 1, k_node = 0, is_evictable = True\<rparr>,
          0 \<mapsto> \<lparr>history = [], fid = - 1, k_node = 0, is_evictable = True\<rparr>],
       current_timestamp = 2, curr_size = 2, replacer_size = 3, k_replacer = 1\<rparr>) \<and>
   iteration_order [3, 0]
      \<lparr>node_store =
         [3 \<mapsto> \<lparr>history = [1], fid = - 1, k_node = 0, is_evictable = True\<rparr>,
          0 \<mapsto> \<lparr>history = [], fid = - 1, k_node = 0, is_evictable = True\<rparr>],
       current_timestamp = 2, curr_size = 2, replacer_size = 3, k_replacer = 1\<rparr> \<and>
   iteration_order [0, 3]
      \<lparr>node_store =
         [3 \<mapsto> \<lparr>history = [1], fid = - 1, k_node = 0, is_evictable = True\<rparr>,
          0 \<mapsto> \<lparr>history = [], fid = - 1, k_node = 0, is_evictable = True\<rparr>],
       current_timestamp = 2, curr_size = 2, replacer_size = 3, k_replacer = 1\<rparr> \<and>
   Evict [3, 0] 7
      \<lparr>node_store =
         [3 \<mapsto> \<lparr>history = [1], fid = - 1, k_node = 0, is_evictable = True\<rparr>,
          0 \<mapsto> \<lparr>history = [], fid = - 1, k_node = 0, is_evictable = True\<rparr>],
       current_timestamp = 2, curr_size = 2, replacer_size = 3, k_replacer = 1\<rparr> =
     (True, 3,
      \<lparr>node_store = [0 \<mapsto> \<lparr>history = [], fid = - 1, k_node = 0, is_evictable = True\<rparr>],
       current_timestamp = 2, curr_size = 1, replacer_size = 3, k_replacer = 1\<rparr>) \<and>
   Evict [0, 3] 7
      \<lparr>node_store =
         [3 \<mapsto> \<lparr>history = [1], fid = - 1, k_node = 0, is_evictable = True\<rparr>,
          0 \<mapsto> \<lparr>history = [], fid = - 1, k_node = 0, is_evictable = True\<rparr>],
       current_timestamp = 2, curr_size = 2, replacer_size = 3, k_replacer = 1\<rparr> =
     (True, 0,
      \<lparr>node_store = [3 \<mapsto> \<lparr>history = [1], fid = - 1, k_node = 0, is_evictable = True\<rparr>],
       current_timestamp = 2, curr_size = 1, replacer_size = 3, k_replacer = 1\<rparr>)"
  by (auto simp: replacer_defs fun_upd_twist iteration_order_def evictable_frames_def)

section \<open>Scenario A\<close>

text \<open>
  C6. Scenario A of the specification: with \<open>num_frames = 3\<close> and \<open>k = 2\<close>, the accesses to
  frames 1, 2, 3, 1 followed by \<open>SetEvictable(f, true)\<close> for the three frames are to end
  with \<open>Evict\<close> returning frame 2. On the code the first call, \<open>RecordAccess(1)\<close>, throws
  \<open>std::exception\<close>, since line 92 throws when \<open>replacer_size_ > frame_id\<close>: the
  sequence ends there and the replacer is still in its initial state, where \<open>Evict\<close>
  returns false.
\<close>

theorem scenario_A_throws:
  "calls [RecordAccess 1 Unknown, RecordAccess 2 Unknown, RecordAccess 3 Unknown,
          RecordAccess 1 Unknown, SetEvictable 1 True, SetEvictable 2 True,
          SetEvictable 3 True] (LRUKReplacer 3 2)
     = (Thrown std_exception, LRUKReplacer 3 2) \<and>
   RecordAccess 1 Unknown (LRUKReplacer 3 2) = (Thrown std_exception, LRUKReplacer 3 2) \<and>
   Evict [] frame_id (LRUKReplacer 3 2) = (False, frame_id, LRUKReplacer 3 2)"
  by (simp add: RecordAccess_def LRUKReplacer_def Evict_def)

end
